theory Spec2Isabelle
  imports Complex_Main
begin

section \<open>Numeric values\<close>

text \<open>
  The risk engine computes with numpy/pandas \<open>float64\<close> values. A value is a finite
  number, one of the two infinities, or NaN. Finite arithmetic is modelled as exact real
  arithmetic (rounding, overflow and the sign of zero are outside the model); the rules
  for the non-finite values are the IEEE-754 ones that numpy applies: a division by zero
  yields an infinity or NaN (with a warning) and never raises. The model therefore
  decides which branch is taken, whether a call raises, and which expression a result is
  the evaluation of; it does not decide a comparison between two computed numbers that
  rounding can move, such as the sign of a statistic whose exact value is 0 or the order
  of two products that round to the same float.
\<close>

datatype float64 = Fin real | PInf | NInf | NaN

fun f_neg :: "float64 \<Rightarrow> float64" where
  "f_neg (Fin a) = Fin (- a)"
| "f_neg PInf = NInf"
| "f_neg NInf = PInf"
| "f_neg NaN = NaN"

fun f_add :: "float64 \<Rightarrow> float64 \<Rightarrow> float64" where
  "f_add NaN y = NaN"
| "f_add x NaN = NaN"
| "f_add (Fin a) (Fin b) = Fin (a + b)"
| "f_add (Fin a) y = y"
| "f_add x (Fin b) = x"
| "f_add PInf PInf = PInf"
| "f_add NInf NInf = NInf"
| "f_add PInf NInf = NaN"
| "f_add NInf PInf = NaN"

definition f_sub :: "float64 \<Rightarrow> float64 \<Rightarrow> float64" where
  "f_sub x y = f_add x (f_neg y)"

text \<open>The infinity with the sign of \<open>s\<close>; NaN when \<open>s\<close> is zero (\<open>0 * inf\<close>, \<open>0 / 0\<close>).\<close>

definition inf_of_sign :: "real \<Rightarrow> float64" where
  "inf_of_sign s = (if 0 < s then PInf else if s < 0 then NInf else NaN)"

fun f_mul :: "float64 \<Rightarrow> float64 \<Rightarrow> float64" where
  "f_mul NaN y = NaN"
| "f_mul x NaN = NaN"
| "f_mul (Fin a) (Fin b) = Fin (a * b)"
| "f_mul (Fin a) PInf = inf_of_sign a"
| "f_mul (Fin a) NInf = inf_of_sign (- a)"
| "f_mul PInf (Fin b) = inf_of_sign b"
| "f_mul NInf (Fin b) = inf_of_sign (- b)"
| "f_mul PInf PInf = PInf"
| "f_mul NInf NInf = PInf"
| "f_mul PInf NInf = NInf"
| "f_mul NInf PInf = NInf"

fun f_div :: "float64 \<Rightarrow> float64 \<Rightarrow> float64" where
  "f_div NaN y = NaN"
| "f_div x NaN = NaN"
| "f_div (Fin a) (Fin b) = (if b = 0 then inf_of_sign a else Fin (a / b))"
| "f_div (Fin a) y = Fin 0"
| "f_div PInf (Fin b) = (if 0 \<le> b then PInf else NInf)"
| "f_div NInf (Fin b) = (if 0 \<le> b then NInf else PInf)"
| "f_div x y = NaN"

text \<open>Comparison \<open>x < y\<close>: false as soon as one side is NaN.\<close>

fun f_lt :: "float64 \<Rightarrow> float64 \<Rightarrow> bool" where
  "f_lt NaN y = False"
| "f_lt x NaN = False"
| "f_lt (Fin a) (Fin b) = (a < b)"
| "f_lt x PInf = (x \<noteq> PInf)"
| "f_lt NInf y = (y \<noteq> NInf)"
| "f_lt x y = False"

text \<open>\<open>np.log\<close>: minus infinity at zero and NaN below it, both with a warning only.\<close>

fun np_log :: "float64 \<Rightarrow> float64" where
  "np_log (Fin a) = (if 0 < a then Fin (ln a) else if a = 0 then NInf else NaN)"
| "np_log PInf = PInf"
| "np_log NInf = NaN"
| "np_log NaN = NaN"

fun np_sqrt :: "float64 \<Rightarrow> float64" where
  "np_sqrt (Fin a) = (if 0 \<le> a then Fin (sqrt a) else NaN)"
| "np_sqrt PInf = PInf"
| "np_sqrt NInf = NaN"
| "np_sqrt NaN = NaN"

definition is_finite :: "float64 \<Rightarrow> bool" where
  "is_finite x = (case x of Fin a \<Rightarrow> True | _ \<Rightarrow> False)"

section \<open>Series\<close>

text \<open>
  A pandas Series is an ordered sequence of (index label, value) pairs. The exceptions
  the code can raise are values of \<open>error\<close>; a function that can raise returns
  \<open>error + 'a\<close>.
\<close>

type_synonym ('t, 'a) series = "('t \<times> 'a) list"

datatype error = ValueError | KeyError | ZeroDivisionError

definition index :: "('t, 'a) series \<Rightarrow> 't list" where
  "index s = map fst s"

definition values_of :: "('t, 'a) series \<Rightarrow> 'a list" where
  "values_of s = map snd s"

text \<open>\<open>astype(int)\<close> on a boolean series, and the \<open>sum()\<close> of integers.\<close>

definition astype_int :: "bool list \<Rightarrow> int list" where
  "astype_int bs = map (\<lambda>b. if b then 1 else 0) bs"

section \<open>Kupiec proportion-of-failures test (backtests.py)\<close>

text \<open>
  The dictionaries returned by the two backtests are records; the Kupiec result extends
  the likelihood-ratio pair by the observed and the expected breach count. The
  chi-squared distribution function \<open>chi2.cdf(_, df=1)\<close> belongs to scipy and is a
  parameter of the model. The series parameter \<open>breaches\<close> of the source is \<open>bs\<close> here,
  since \<open>breaches\<close> names the field of the result.
\<close>

record lr_result =
  LR_stat :: float64
  p_value :: float64

record kupiec_result = lr_result +
  breaches :: int
  expected :: float64

definition kupiec_pof_test ::
  "(float64 \<Rightarrow> float64) \<Rightarrow> ('t, bool) series \<Rightarrow> real \<Rightarrow> kupiec_result" where
  "kupiec_pof_test chi2_cdf bs alpha =
     (let T = int (length bs);
          x = sum_list (astype_int (values_of bs));
          p = 1 - alpha
      in if x = 0 \<or> x = T then
           \<lparr>LR_stat = NaN, p_value = NaN, breaches = x, expected = Fin (real_of_int T * p)\<rparr>
         else
           (let LR = f_mul (Fin (- 2))
                  (f_sub
                     (f_add (f_mul (Fin (real_of_int (T - x))) (np_log (Fin (1 - p))))
                            (f_mul (Fin (real_of_int x)) (np_log (Fin p))))
                     (f_add (f_mul (Fin (real_of_int (T - x)))
                                   (np_log (Fin (1 - real_of_int x / real_of_int T))))
                            (f_mul (Fin (real_of_int x))
                                   (np_log (Fin (real_of_int x / real_of_int T))))))
            in \<lparr>LR_stat = LR, p_value = f_sub (Fin 1) (chi2_cdf LR),
                breaches = x, expected = Fin (real_of_int T * p)\<rparr>))"

section \<open>Christoffersen independence test (backtests.py)\<close>

text \<open>
  The four transition counters are Python integers, updated by the loop over
  \<open>range(1, len(breaches))\<close>; \<open>breaches.iloc[i - 1]\<close> and \<open>breaches.iloc[i]\<close> are
  in range for every index of that loop. The quotients of the counters are divisions of
  Python integers: they give a finite number or raise \<open>ZeroDivisionError\<close>, and the
  guarded logarithm only takes \<open>np.log\<close> of a positive number, so every intermediate
  value is finite and the statistic is computed on the reals: the model gives the
  expression that \<open>LR\<close> evaluates, not its rounded value (the code's \<open>LR\<close> can differ from
  it by a rounding error of either sign). The bound variable \<open>pi\<close> is the source's local
  of that name, not the circle constant.
\<close>

record transition_counts =
  n00 :: int
  n01 :: int
  n10 :: int
  n11 :: int

fun count_transitions :: "int list \<Rightarrow> nat list \<Rightarrow> transition_counts \<Rightarrow> transition_counts" where
  "count_transitions b [] c = c"
| "count_transitions b (i # is) c =
     (let prev = b ! (i - 1); curr = b ! i
      in count_transitions b is
           (if prev = 0 \<and> curr = 0 then c\<lparr>n00 := n00 c + 1\<rparr>
            else if prev = 0 \<and> curr = 1 then c\<lparr>n01 := n01 c + 1\<rparr>
            else if prev = 1 \<and> curr = 0 then c\<lparr>n10 := n10 c + 1\<rparr>
            else if prev = 1 \<and> curr = 1 then c\<lparr>n11 := n11 c + 1\<rparr>
            else c))"

definition safe_log :: "real \<Rightarrow> real" where
  "safe_log x = (if x > 0 then ln x else 0)"

definition christoffersen_test ::
  "(float64 \<Rightarrow> float64) \<Rightarrow> ('t, bool) series \<Rightarrow> error + lr_result" where
  "christoffersen_test chi2_cdf bs =
     (let b = astype_int (values_of bs);
          c = count_transitions b [1..<length b] \<lparr>n00 = 0, n01 = 0, n10 = 0, n11 = 0\<rparr>;
          pi0 = (if n00 c + n01 c > 0
                 then real_of_int (n01 c) / real_of_int (n00 c + n01 c) else 0);
          pi1 = (if n10 c + n11 c > 0
                 then real_of_int (n11 c) / real_of_int (n10 c + n11 c) else 0)
      in if n00 c + n01 c + n10 c + n11 c = 0 then Inl ZeroDivisionError
         else
           (let pi = real_of_int (n01 c + n11 c) / real_of_int (n00 c + n01 c + n10 c + n11 c);
                L0 = real_of_int (n00 c + n10 c) * safe_log (1 - pi)
                     + real_of_int (n01 c + n11 c) * safe_log pi;
                L1 = real_of_int (n00 c) * safe_log (1 - pi0)
                     + real_of_int (n01 c) * safe_log pi0
                     + real_of_int (n10 c) * safe_log (1 - pi1)
                     + real_of_int (n11 c) * safe_log pi1;
                LR = - 2 * (L0 - L1)
            in Inr \<lparr>LR_stat = Fin LR, p_value = f_sub (Fin 1) (chi2_cdf (Fin LR))\<rparr>))"

text \<open>
  The statistic in the words of the specification: the number of adjacent pairs
  (previous, current) with the given values, the conditional shares with the value 0 for
  an empty row, and a logarithm that treats \<open>ln 0\<close> as 0.
\<close>

definition transitions :: "bool list \<Rightarrow> bool \<Rightarrow> bool \<Rightarrow> nat" where
  "transitions v p q = count_list (zip v (tl v)) (p, q)"

definition guarded_ln :: "real \<Rightarrow> real" where
  "guarded_ln x = (if x = 0 then 0 else ln x)"

definition spec_christoffersen_LR :: "bool list \<Rightarrow> real" where
  "spec_christoffersen_LR v =
     (let m00 = real (transitions v False False);
          m01 = real (transitions v False True);
          m10 = real (transitions v True False);
          m11 = real (transitions v True True);
          p0 = (if m00 + m01 = 0 then 0 else m01 / (m00 + m01));
          p1 = (if m10 + m11 = 0 then 0 else m11 / (m10 + m11));
          p = (m01 + m11) / (m00 + m01 + m10 + m11);
          L0 = (m00 + m10) * guarded_ln (1 - p) + (m01 + m11) * guarded_ln p;
          L1 = m00 * guarded_ln (1 - p0) + m01 * guarded_ln p0
               + m10 * guarded_ln (1 - p1) + m11 * guarded_ln p1
      in - 2 * (L0 - L1))"

section \<open>Rolling Basel traffic light (backtests.py)\<close>

text \<open>
  \<open>py_slice xs start stop\<close> is the positional slice \<open>xs[start:stop]\<close> of Python and of
  \<open>iloc\<close>: a negative bound counts from the end and both bounds are clipped to the
  length. The \<open>sum()\<close> of a boolean series counts its true entries. The loop appends one
  status per index of \<open>range(window, len(breaches))\<close>; the final \<open>pd.Series\<close> raises
  \<open>ValueError\<close> when the number of results differs from the length of
  \<open>breaches.index[window:]\<close>, which happens exactly for a negative window.
\<close>

datatype status = GREEN | YELLOW | RED

definition py_slice :: "'a list \<Rightarrow> int \<Rightarrow> int \<Rightarrow> 'a list" where
  "py_slice xs start stop =
     (let n = int (length xs);
          clamp = (\<lambda>i. if i < 0 then max (i + n) 0 else min i n);
          lo = clamp start;
          hi = clamp stop
      in take (nat (hi - lo)) (drop (nat lo) xs))"

definition sum_bools :: "bool list \<Rightarrow> int" where
  "sum_bools bs = (\<Sum>b\<leftarrow>bs. if b then 1 else 0)"

fun basel_loop :: "('t, bool) series \<Rightarrow> int \<Rightarrow> int list \<Rightarrow> status list \<Rightarrow> status list" where
  "basel_loop bs window [] results = results"
| "basel_loop bs window (i # is) results =
     (let window_breaches = sum_bools (values_of (py_slice bs (i - window) i));
          status = (if window_breaches \<le> 4 then GREEN
                    else if window_breaches \<le> 9 then YELLOW
                    else RED)
      in basel_loop bs window is (results @ [status]))"

definition rolling_basel_traffic_light ::
  "('t, bool) series \<Rightarrow> int \<Rightarrow> error + ('t, status) series" where
  "rolling_basel_traffic_light bs window =
     (let n = int (length bs);
          results = basel_loop bs window [window..n - 1] [];
          idx = py_slice (index bs) window n
      in if length results = length idx then Inr (zip idx results) else Inl ValueError)"

text \<open>The bucket chosen by the body of the loop, as a function of the window sum.\<close>

definition classify :: "int \<Rightarrow> status" where
  "classify s = (if s \<le> 4 then GREEN else if s \<le> 9 then YELLOW else RED)"

section \<open>Reductions of a series\<close>

text \<open>
  The pandas reductions skip NaN entries (\<open>skipna=True\<close>). On what is left, \<open>sum()\<close>
  of nothing is 0, while \<open>min()\<close>, \<open>mean()\<close> and \<open>std()\<close> of nothing are NaN; \<open>std()\<close> is
  the sample standard deviation (\<open>ddof=1\<close>) and is NaN for fewer than two values. The
  \<open>mean()\<close> of a boolean series is the share of its true entries, NaN when it is empty.
\<close>

definition dropna :: "float64 list \<Rightarrow> float64 list" where
  "dropna xs = filter (\<lambda>v. v \<noteq> NaN) xs"

definition f_sum :: "float64 list \<Rightarrow> float64" where
  "f_sum xs = foldl f_add (Fin 0) xs"

definition f_min :: "float64 \<Rightarrow> float64 \<Rightarrow> float64" where
  "f_min x y = (if f_lt y x then y else x)"

definition series_sum :: "('t, float64) series \<Rightarrow> float64" where
  "series_sum s = f_sum (dropna (values_of s))"

definition series_min :: "('t, float64) series \<Rightarrow> float64" where
  "series_min s =
     (case dropna (values_of s) of [] \<Rightarrow> NaN | y # ys \<Rightarrow> foldl f_min y ys)"

definition series_mean :: "('t, float64) series \<Rightarrow> float64" where
  "series_mean s =
     (let ys = dropna (values_of s)
      in if ys = [] then NaN else f_div (f_sum ys) (Fin (real (length ys))))"

definition series_std :: "('t, float64) series \<Rightarrow> float64" where
  "series_std s =
     (let ys = dropna (values_of s);
          n = length ys
      in if n < 2 then NaN
         else
           (let avg = f_div (f_sum ys) (Fin (real n));
                sqr = map (\<lambda>y. f_mul (f_sub avg y) (f_sub avg y)) ys
            in np_sqrt (f_div (f_sum sqr) (Fin (real n - 1)))))"

definition bool_mean :: "('t, bool) series \<Rightarrow> float64" where
  "bool_mean s =
     (if s = [] then NaN
      else Fin (real_of_int (sum_list (astype_int (values_of s))) / real (length s)))"

section \<open>Parametric VaR and CVaR (risk_metrics.py)\<close>

text \<open>
  The quantile and density functions of the normal and of the Student-t distribution
  belong to scipy; they are parameters of the model. \<open>returns.loc[sigma.index]\<close> selects
  the rows of the labels of \<open>sigma\<close>, in their order, and raises \<open>KeyError\<close> for a label
  that the returns do not have (labels are unique). Both \<open>raise ValueError\<close> statements
  come before it. The parameter \<open>dist\<close> of the source is \<open>distr\<close> here.
\<close>

record scipy_stats =
  norm_ppf :: "real \<Rightarrow> float64"
  norm_pdf :: "float64 \<Rightarrow> float64"
  t_ppf :: "real \<Rightarrow> real \<Rightarrow> float64"
  t_pdf :: "float64 \<Rightarrow> real \<Rightarrow> float64"

definition scale_series :: "float64 \<Rightarrow> ('t, float64) series \<Rightarrow> ('t, float64) series" where
  "scale_series c s = map (\<lambda>(t, v). (t, f_mul c v)) s"

fun loc_labels :: "('t, 'a) series \<Rightarrow> 't list \<Rightarrow> error + ('t, 'a) series" where
  "loc_labels s [] = Inr []"
| "loc_labels s (l # ls) =
     (case map_of s l of
        None \<Rightarrow> Inl KeyError
      | Some v \<Rightarrow> (case loc_labels s ls of Inl e \<Rightarrow> Inl e | Inr r \<Rightarrow> Inr ((l, v) # r)))"

definition parametric_var_cvar ::
  "scipy_stats \<Rightarrow> ('t, float64) series \<Rightarrow> ('t, float64) series \<Rightarrow> real \<Rightarrow> string \<Rightarrow> real option
     \<Rightarrow> error + (('t, float64) series \<times> ('t, float64) series \<times> ('t, float64) series)" where
  "parametric_var_cvar stats returns sigma alpha distr nu =
     (if distr = ''normal'' then
        (let z = norm_ppf stats alpha;
             var = scale_series z sigma;
             cvar = scale_series (f_div (norm_pdf stats z) (Fin (1 - alpha))) sigma
         in case loc_labels returns (index sigma) of
              Inl e \<Rightarrow> Inl e
            | Inr aligned_returns \<Rightarrow> Inr (aligned_returns, var, cvar))
      else if distr = ''t'' then
        (case nu of
           None \<Rightarrow> Inl ValueError
         | Some n \<Rightarrow>
             (let z = t_ppf stats alpha n;
                  var = scale_series z sigma;
                  cvar = scale_series
                           (f_mul (f_div (t_pdf stats z n) (Fin (1 - alpha)))
                                  (f_div (f_add (Fin n) (f_mul z z)) (Fin (n - 1))))
                           sigma
              in case loc_labels returns (index sigma) of
                   Inl e \<Rightarrow> Inl e
                 | Inr aligned_returns \<Rightarrow> Inr (aligned_returns, var, cvar)))
      else Inl ValueError)"

text \<open>
  A comparison of two series raises \<open>ValueError\<close> unless they carry the same labels in
  the same order.
\<close>

definition var_breaches ::
  "('t, float64) series \<Rightarrow> ('t, float64) series \<Rightarrow> error + (('t, bool) series \<times> float64)" where
  "var_breaches returns var =
     (if index returns \<noteq> index var then Inl ValueError
      else
        (let bs = map (\<lambda>((t, r), (u, v)). (t, f_lt r (f_neg v))) (zip returns var);
             breach_rate = bool_mean bs
         in Inr (bs, breach_rate)))"

text \<open>
  The calibration has no \<open>raise\<close> and no failing operation: the quotient of the two
  numpy scalars is an infinity or NaN when the mean is zero.
\<close>

definition calibrate_volatility ::
  "('t, float64) series \<Rightarrow> ('u, float64) series \<Rightarrow> ('u, float64) series" where
  "calibrate_volatility returns sigma =
     (let scale = f_div (series_std returns) (series_mean sigma)
      in map (\<lambda>(t, v). (t, f_mul v scale)) sigma)"

section \<open>Stress scenarios (stress_tests.py)\<close>

text \<open>
  \<open>returns.loc[start:end]\<close> on an increasing index is the run of rows from the first label
  not below \<open>start\<close> to the last label not above \<open>end\<close>, both bounds included. The
  keys \<open>start\<close> and \<open>end\<close> of the returned dictionary are the fields \<open>start\<close> and \<open>stop\<close>
  of the record, and the two parameters are \<open>lo\<close> and \<open>hi\<close>.
\<close>

definition loc_range :: "('t::linorder, 'a) series \<Rightarrow> 't \<Rightarrow> 't \<Rightarrow> ('t, 'a) series" where
  "loc_range s lo hi = takeWhile (\<lambda>(t, v). t \<le> hi) (dropWhile (\<lambda>(t, v). t < lo) s)"

record 't stress_record =
  start :: 't
  stop :: 't
  days :: nat
  worst_day :: float64
  cumulative_loss :: float64
  avg_daily_loss :: float64

definition stress_test_period ::
  "('t::linorder, float64) series \<Rightarrow> 't \<Rightarrow> 't \<Rightarrow> 't stress_record" where
  "stress_test_period returns lo hi =
     (let stress_returns = loc_range returns lo hi
      in \<lparr>start = lo, stop = hi,
          days = length stress_returns,
          worst_day = series_min stress_returns,
          cumulative_loss = series_sum stress_returns,
          avg_daily_loss = series_mean stress_returns\<rparr>)"

text \<open>
  Mean and sample standard deviation of real numbers, as the specification uses them,
  and the series of finite values over a list of reals.
\<close>

definition mean_of :: "real list \<Rightarrow> real" where
  "mean_of xs = sum_list xs / real (length xs)"

definition sample_std :: "real list \<Rightarrow> real" where
  "sample_std xs = sqrt ((\<Sum>x\<leftarrow>xs. (x - mean_of xs)\<^sup>2) / (real (length xs) - 1))"

definition fin_series :: "('t \<times> real) list \<Rightarrow> ('t, float64) series" where
  "fin_series s = map (\<lambda>(t, r). (t, Fin r)) s"

section \<open>Properties\<close>

lemma sum_astype_int: "sum_list (astype_int bs) = int (count_list bs True)"
  by (induction bs) (simp_all add: astype_int_def)

text \<open>
  C1. Whenever the breach count \<open>x\<close> of the series is 0 or equals the sample length
  \<open>T\<close>, the Kupiec test returns the record with NaN statistic, NaN p-value, observed
  count \<open>x\<close> and expected count \<open>T * (1 - alpha)\<close>; the result does not depend on the
  chi-squared function, so no likelihood ratio has been evaluated.
\<close>

theorem kupiec_degenerate:
  assumes "count_list (values_of bs) True = 0 \<or> count_list (values_of bs) True = length bs"
  shows "kupiec_pof_test chi2_cdf bs alpha =
           \<lparr>LR_stat = NaN, p_value = NaN,
            breaches = int (count_list (values_of bs) True),
            expected = Fin (real (length bs) * (1 - alpha))\<rparr>"
  using assms by (auto simp add: kupiec_pof_test_def Let_def sum_astype_int)

theorem kupiec_degenerate_witness:
  "kupiec_pof_test (\<lambda>x. x) [(0::nat, True), (1, True)] (99 / 100) =
     \<lparr>LR_stat = NaN, p_value = NaN, breaches = 2, expected = Fin (2 * (1 - 99 / 100))\<rparr>"
  using kupiec_degenerate [of "[(0::nat, True), (1, True)]" "\<lambda>x. x" "99 / 100"]
  by (simp add: values_of_def)

lemma adjacent_pairs: "zip v (tl v) = map (\<lambda>i. (v ! (i - 1), v ! i)) [1..<length v]"
  by (rule nth_equalityI) (auto simp add: nth_tl)

lemma count_list_filter: "count_list xs y = length (filter (\<lambda>x. x = y) xs)"
  by (induction xs) auto

lemma transitions_index:
  "transitions v p q = length (filter (\<lambda>i. v ! (i - 1) = p \<and> v ! i = q) [1..<length v])"
  by (simp add: transitions_def adjacent_pairs count_list_filter filter_map comp_def)

lemma count_transitions_n00:
  "n00 (count_transitions b is c) = n00 c + int (length (filter (\<lambda>i. b ! (i - 1) = 0 \<and> b ! i = 0) is))"
  by (induction "is" arbitrary: c) (simp_all add: Let_def)

lemma count_transitions_n01:
  "n01 (count_transitions b is c) = n01 c + int (length (filter (\<lambda>i. b ! (i - 1) = 0 \<and> b ! i = 1) is))"
  by (induction "is" arbitrary: c) (simp_all add: Let_def)

lemma count_transitions_n10:
  "n10 (count_transitions b is c) = n10 c + int (length (filter (\<lambda>i. b ! (i - 1) = 1 \<and> b ! i = 0) is))"
  by (induction "is" arbitrary: c) (simp_all add: Let_def)

lemma count_transitions_n11:
  "n11 (count_transitions b is c) = n11 c + int (length (filter (\<lambda>i. b ! (i - 1) = 1 \<and> b ! i = 1) is))"
  by (induction "is" arbitrary: c) (simp_all add: Let_def)

lemma astype_int_nth: "i < length v \<Longrightarrow> astype_int v ! i = (if v ! i then 1 else 0)"
  by (simp add: astype_int_def)

lemma filter_range_cong:
  "(\<And>i. 1 \<le> i \<Longrightarrow> i < n \<Longrightarrow> P i = Q i) \<Longrightarrow> filter P [1..<n] = filter Q [1..<n]"
  by (rule filter_cong) auto

lemma loop_counts:
  fixes v :: "bool list"
  defines "c \<equiv> count_transitions (astype_int v) [1..<length (astype_int v)]
                  \<lparr>n00 = 0, n01 = 0, n10 = 0, n11 = 0\<rparr>"
  shows "n00 c = int (transitions v False False)"
    and "n01 c = int (transitions v False True)"
    and "n10 c = int (transitions v True False)"
    and "n11 c = int (transitions v True True)"
proof -
  have len: "length (astype_int v) = length v" by (simp add: astype_int_def)
  have f: "filter (\<lambda>i. astype_int v ! (i - 1) = (if p then 1 else 0) \<and>
                        astype_int v ! i = (if q then 1 else 0)) [1..<length v]
           = filter (\<lambda>i. v ! (i - 1) = p \<and> v ! i = q) [1..<length v]" for p q
    by (rule filter_range_cong) (auto simp add: astype_int_nth)
  show "n00 c = int (transitions v False False)"
    using f [of False False] by (simp add: c_def count_transitions_n00 len transitions_index)
  show "n01 c = int (transitions v False True)"
    using f [of False True] by (simp add: c_def count_transitions_n01 len transitions_index)
  show "n10 c = int (transitions v True False)"
    using f [of True False] by (simp add: c_def count_transitions_n10 len transitions_index)
  show "n11 c = int (transitions v True True)"
    using f [of True True] by (simp add: c_def count_transitions_n11 len transitions_index)
qed

lemma transitions_total:
  "transitions v False False + transitions v False True
     + transitions v True False + transitions v True True = length v - 1"
proof -
  have "length (filter (\<lambda>x. x = (False, False)) ps) + length (filter (\<lambda>x. x = (False, True)) ps)
        + length (filter (\<lambda>x. x = (True, False)) ps) + length (filter (\<lambda>x. x = (True, True)) ps)
        = length ps" for ps :: "(bool \<times> bool) list"
    by (induction ps) auto
  from this [of "zip v (tl v)"] show ?thesis
    by (simp add: transitions_def count_list_filter)
qed


lemma safe_log_guarded: "0 \<le> x \<Longrightarrow> safe_log x = guarded_ln x"
  by (simp add: safe_log_def guarded_ln_def)

lemma share_bounds:
  fixes a b :: nat
  shows "0 \<le> real b / real (a + b)" and "0 \<le> 1 - real b / real (a + b)"
  by (simp_all add: divide_le_eq)

lemma christoffersen_counts:
  fixes bs :: "('t, bool) series"
  defines "v \<equiv> values_of bs"
  defines "a \<equiv> transitions v False False" and "b \<equiv> transitions v False True"
    and "c \<equiv> transitions v True False" and "d \<equiv> transitions v True True"
  shows "christoffersen_test chi2_cdf bs =
     (if a + b + c + d = 0 then Inl ZeroDivisionError
      else
        (let pi0 = (if 0 < a + b then real b / real (a + b) else 0);
             pi1 = (if 0 < c + d then real d / real (c + d) else 0);
             pi = real (b + d) / real (a + b + c + d);
             L0 = real (a + c) * safe_log (1 - pi) + real (b + d) * safe_log pi;
             L1 = real a * safe_log (1 - pi0) + real b * safe_log pi0
                  + real c * safe_log (1 - pi1) + real d * safe_log pi1;
             LR = - 2 * (L0 - L1)
         in Inr \<lparr>LR_stat = Fin LR, p_value = f_sub (Fin 1) (chi2_cdf (Fin LR))\<rparr>))"
proof -
  note lc = loop_counts [of v, folded a_def b_def c_def d_def]
  have z: "(int a + int b + int c + int d = 0) = (a + b + c + d = 0)"
    by linarith
  have p0: "(0 < int a + int b) = (0 < a + b)" by linarith
  have p1: "(0 < int c + int d) = (0 < c + d)" by linarith
  show ?thesis
    unfolding christoffersen_test_def Let_def v_def [symmetric] lc z p0 p1
    by (simp add: add_ac)
qed


lemma lr_forms_agree:
  fixes a b c d :: nat
  assumes "a + b + c + d \<noteq> 0"
  shows "(let pi0 = (if 0 < a + b then real b / real (a + b) else 0);
             pi1 = (if 0 < c + d then real d / real (c + d) else 0);
             pi = real (b + d) / real (a + b + c + d);
             L0 = real (a + c) * safe_log (1 - pi) + real (b + d) * safe_log pi;
             L1 = real a * safe_log (1 - pi0) + real b * safe_log pi0
                  + real c * safe_log (1 - pi1) + real d * safe_log pi1
         in - 2 * (L0 - L1)) =
        (let m00 = real a; m01 = real b; m10 = real c; m11 = real d;
             p0 = (if m00 + m01 = 0 then 0 else m01 / (m00 + m01));
             p1 = (if m10 + m11 = 0 then 0 else m11 / (m10 + m11));
             p = (m01 + m11) / (m00 + m01 + m10 + m11);
             L0 = (m00 + m10) * guarded_ln (1 - p) + (m01 + m11) * guarded_ln p;
             L1 = m00 * guarded_ln (1 - p0) + m01 * guarded_ln p0
                  + m10 * guarded_ln (1 - p1) + m11 * guarded_ln p1
         in - 2 * (L0 - L1))"
proof -
  define pi0 where "pi0 = (if 0 < a + b then real b / real (a + b) else 0)"
  define pi1 where "pi1 = (if 0 < c + d then real d / real (c + d) else 0)"
  define pi where "pi = real (b + d) / real (a + b + c + d)"
  have e0: "(if real a + real b = 0 then 0 else real b / (real a + real b)) = pi0"
    unfolding pi0_def by (cases "a + b = 0") (simp_all add: add_nonneg_eq_0_iff)
  have e1: "(if real c + real d = 0 then 0 else real d / (real c + real d)) = pi1"
    unfolding pi1_def by (cases "c + d = 0") (simp_all add: add_nonneg_eq_0_iff)
  have e: "(real b + real d) / (real a + real b + real c + real d) = pi"
    unfolding pi_def by simp
  have b0: "0 \<le> pi0" "0 \<le> 1 - pi0"
    unfolding pi0_def using share_bounds [of b a] by simp_all
  have b1: "0 \<le> pi1" "0 \<le> 1 - pi1"
    unfolding pi1_def using share_bounds [of d c] by simp_all
  have bp: "0 \<le> pi" "0 \<le> 1 - pi"
    unfolding pi_def using share_bounds [of "b + d" "a + c"] by (simp_all add: add_ac)
  have "- 2 * ((real (a + c) * safe_log (1 - pi) + real (b + d) * safe_log pi)
               - (real a * safe_log (1 - pi0) + real b * safe_log pi0
                  + real c * safe_log (1 - pi1) + real d * safe_log pi1)) =
        - 2 * (((real a + real c) * guarded_ln (1 - pi) + (real b + real d) * guarded_ln pi)
               - (real a * guarded_ln (1 - pi0) + real b * guarded_ln pi0
                  + real c * guarded_ln (1 - pi1) + real d * guarded_ln pi1))"
    by (simp only: safe_log_guarded b0 b1 bp of_nat_add)
  then show ?thesis
    unfolding Let_def e0 e1 e pi0_def [symmetric] pi1_def [symmetric] pi_def [symmetric] .
qed

text \<open>
  C2 (as amended). For every breach indicator series with at least two observations the
  Christoffersen test returns the statistic of the specification: the four transition
  counts over the adjacent pairs, the conditional shares set to 0 on an empty row, the
  two log-likelihoods with the guarded logarithm, \<open>LR = - 2 * (L0 - L1)\<close> and the
  p-value \<open>1 - chi2_cdf LR\<close>.
\<close>

theorem christoffersen_formula:
  assumes "2 \<le> length bs"
  shows "christoffersen_test chi2_cdf bs =
           Inr \<lparr>LR_stat = Fin (spec_christoffersen_LR (values_of bs)),
                p_value = f_sub (Fin 1) (chi2_cdf (Fin (spec_christoffersen_LR (values_of bs))))\<rparr>"
proof -
  let ?v = "values_of bs"
  have tot: "transitions ?v False False + transitions ?v False True
             + transitions ?v True False + transitions ?v True True \<noteq> 0"
    using assms transitions_total [of ?v] by (simp add: values_of_def)
  have spec: "spec_christoffersen_LR ?v = 
        (let pi0 = (if 0 < transitions ?v False False + transitions ?v False True
                    then real (transitions ?v False True)
                         / real (transitions ?v False False + transitions ?v False True) else 0);
             pi1 = (if 0 < transitions ?v True False + transitions ?v True True
                    then real (transitions ?v True True)
                         / real (transitions ?v True False + transitions ?v True True) else 0);
             pi = real (transitions ?v False True + transitions ?v True True)
                  / real (transitions ?v False False + transitions ?v False True
                          + transitions ?v True False + transitions ?v True True);
             L0 = real (transitions ?v False False + transitions ?v True False) * safe_log (1 - pi)
                  + real (transitions ?v False True + transitions ?v True True) * safe_log pi;
             L1 = real (transitions ?v False False) * safe_log (1 - pi0)
                  + real (transitions ?v False True) * safe_log pi0
                  + real (transitions ?v True False) * safe_log (1 - pi1)
                  + real (transitions ?v True True) * safe_log pi1
         in - 2 * (L0 - L1))"
    unfolding spec_christoffersen_LR_def lr_forms_agree [OF tot] ..
  show ?thesis
    unfolding spec christoffersen_counts using tot by (simp only: Let_def if_False)
qed

theorem christoffersen_formula_witness:
  "christoffersen_test (\<lambda>x. x) [(0::nat, False), (1, False)] =
     Inr \<lparr>LR_stat = Fin 0, p_value = Fin 1\<rparr>"
  using christoffersen_formula [of "[(0::nat, False), (1, False)]" "\<lambda>x. x"]
  by (simp add: spec_christoffersen_LR_def transitions_def values_of_def guarded_ln_def f_sub_def)

text \<open>
  C2 as stated covers every series; on the empty series there is no transition pair,
  the division for the unconditional share \<open>pi\<close> has denominator 0 and the test raises.
\<close>

theorem christoffersen_empty_raises:
  "christoffersen_test (\<lambda>x. x) ([] :: (nat, bool) series) = Inl ZeroDivisionError"
  by (simp add: christoffersen_counts transitions_def values_of_def)

text \<open>
  C3. The divisions for \<open>pi0\<close> and \<open>pi1\<close> are guarded, the one for \<open>pi\<close> is not: on a
  series of a single observation the test raises \<open>ZeroDivisionError\<close>.
\<close>

theorem christoffersen_single_raises:
  "christoffersen_test (\<lambda>x. x) [(0::nat, True)] = Inl ZeroDivisionError"
  by (simp add: christoffersen_counts transitions_def values_of_def)


lemma basel_loop_map:
  "basel_loop bs w is results =
     results @ map (\<lambda>i. classify (sum_bools (values_of (py_slice bs (i - w) i)))) is"
  by (induction "is" arbitrary: results) (simp_all add: Let_def classify_def)

lemma upto_of_nat: "[int a..int b - 1] = map int [a..<b]"
proof (induction b)
  case 0
  then show ?case by simp
next
  case (Suc b)
  show ?case
  proof (cases "a \<le> b")
    case True
    then have "[int a..int (Suc b) - 1] = [int a..int b - 1] @ [int b]"
      using upto_rec2 [of "int a" "int b"] by simp
    with Suc True show ?thesis by simp
  next
    case False
    then show ?thesis by simp
  qed
qed

lemma py_slice_window:
  "k + w \<le> length xs \<Longrightarrow> py_slice xs (int k) (int (k + w)) = take w (drop k xs)"
  by (simp add: py_slice_def Let_def min_def)

lemma py_slice_from:
  "py_slice xs (int w) (int (length xs)) = drop w xs"
  by (simp add: py_slice_def Let_def min_def)

lemma sum_bools_window:
  assumes "k + w \<le> length bs"
  shows "sum_bools (values_of (take w (drop k bs)))
           = (\<Sum>j = k..<k + w. if snd (bs ! j) then 1 else 0)"
proof -
  have "sum_bools (values_of (take w (drop k bs)))
          = (\<Sum>i = 0..<w. if snd (take w (drop k bs) ! i) then 1 else 0)"
    using assms by (simp add: sum_bools_def values_of_def sum_list_sum_nth comp_def)
  also have "\<dots> = (\<Sum>i = 0..<w. if snd (bs ! (k + i)) then 1 else 0)"
    using assms by (intro sum.cong) simp_all
  also have "\<dots> = (\<Sum>j = k..<k + w. if snd (bs ! j) then 1 else 0)"
    using sum.shift_bounds_nat_ivl [of "\<lambda>j. if snd (bs ! j) then (1::int) else 0" 0 k w]
    by (simp add: add.commute)
  finally show ?thesis .
qed



lemma basel_negative_window:
  assumes "w < 0"
  shows "rolling_basel_traffic_light bs w = Inl ValueError"
proof -
  let ?n = "int (length bs)"
  have "length (basel_loop bs w [w..?n - 1] []) = nat (?n - w)"
    by (simp add: basel_loop_map)
  moreover have "length (py_slice (index bs) w ?n) \<le> length bs"
    by (simp add: py_slice_def index_def Let_def)
  moreover have "length bs < nat (?n - w)"
    using assms by linarith
  ultimately show ?thesis
    by (simp add: rolling_basel_traffic_light_def Let_def)
qed

text \<open>
  C4. For every breach indicator series and window size \<open>W\<close> the classifier returns a
  series of exactly \<open>length bs - W\<close> entries (none when \<open>W\<close> is at least the length): the
  entry for index \<open>i\<close>, for every \<open>i\<close> from \<open>W\<close> to the end, carries the label of
  observation \<open>i\<close> and classifies the breach sum over the window \<open>[i - W, i)\<close>: at most 4
  is GREEN, 5 to 9 is YELLOW, 10 or more is RED. The first \<open>W\<close> labels do not occur.
\<close>

theorem basel_traffic_light:
  fixes bs :: "('t, bool) series" and W :: nat
  shows "\<exists>out. rolling_basel_traffic_light bs (int W) = Inr out
           \<and> length out = length bs - W
           \<and> (\<forall>i. W \<le> i \<and> i < length bs \<longrightarrow>
                 (let s = (\<Sum>j = i - W..<i. if snd (bs ! j) then 1 else 0) :: int
                  in fst (out ! (i - W)) = fst (bs ! i)
                     \<and> (s \<le> 4 \<longrightarrow> snd (out ! (i - W)) = GREEN)
                     \<and> (5 \<le> s \<and> s \<le> 9 \<longrightarrow> snd (out ! (i - W)) = YELLOW)
                     \<and> (10 \<le> s \<longrightarrow> snd (out ! (i - W)) = RED)))"
proof -
  define f where "f = (\<lambda>i. classify (sum_bools (values_of (py_slice bs (i - int W) i))))"
  define out where "out = zip (drop W (index bs)) (map f (map int [W..<length bs]))"
  have idx: "py_slice (index bs) (int W) (int (length bs)) = drop W (index bs)"
    using py_slice_from [of "index bs" W] by (simp add: index_def)
  have res: "rolling_basel_traffic_light bs (int W) = Inr out"
    by (simp add: rolling_basel_traffic_light_def Let_def basel_loop_map upto_of_nat
        idx out_def f_def) (simp add: index_def)
  have len: "length out = length bs - W"
    by (simp add: out_def index_def)
  have entry: "out ! (i - W) = (fst (bs ! i),
                 classify (\<Sum>j = i - W..<i. if snd (bs ! j) then 1 else 0))"
    if "W \<le> i" "i < length bs" for i
  proof -
    have "py_slice bs (int i - int W) (int i) = take W (drop (i - W) bs)"
      using that py_slice_window [of "i - W" W bs] by simp
    then have "f (int i) = classify (\<Sum>j = i - W..<i. if snd (bs ! j) then 1 else 0)"
      using that sum_bools_window [of "i - W" W bs] by (simp add: f_def)
    then show ?thesis
      using that by (simp add: out_def index_def)
  qed
  show ?thesis
    using res len entry by (auto simp add: Let_def classify_def)
qed


theorem basel_traffic_light_witness:
  "\<exists>out. rolling_basel_traffic_light [(0::nat, True), (1, False), (2, True)] (int 2) = Inr out
         \<and> length out = 1 \<and> out ! 0 = (2, GREEN)"
proof -
  let ?bs = "[(0::nat, True), (1, False), (2, True)]"
  obtain out where r: "rolling_basel_traffic_light ?bs (int 2) = Inr out"
    and l: "length out = length ?bs - 2"
    and e: "\<forall>i. 2 \<le> i \<and> i < length ?bs \<longrightarrow>
                 (let s = (\<Sum>j = i - 2..<i. if snd (?bs ! j) then 1 else 0) :: int
                  in fst (out ! (i - 2)) = fst (?bs ! i)
                     \<and> (s \<le> 4 \<longrightarrow> snd (out ! (i - 2)) = GREEN)
                     \<and> (5 \<le> s \<and> s \<le> 9 \<longrightarrow> snd (out ! (i - 2)) = YELLOW)
                     \<and> (10 \<le> s \<longrightarrow> snd (out ! (i - 2)) = RED))"
    using basel_traffic_light [of ?bs 2] by blast
  have s: "(\<Sum>j = 0..<2. if snd (?bs ! j) then 1 else 0) = (1::int)"
    by (simp add: numeral_2_eq_2)
  from e [rule_format, of 2] s have "out ! 0 = (2, GREEN)"
    by (simp add: Let_def prod_eq_iff)
  with r l show ?thesis by simp
qed

lemma values_fin_series: "values_of (fin_series s) = map Fin (map snd s)"
  by (induction s) (auto simp add: values_of_def fin_series_def)

lemma dropna_Fin: "dropna (map Fin xs) = map Fin xs"
  by (induction xs) (simp_all add: dropna_def)

lemma foldl_f_add_Fin: "foldl f_add (Fin a) (map Fin xs) = Fin (a + sum_list xs)"
  by (induction xs arbitrary: a) (simp_all add: add.assoc)

lemma f_sum_Fin: "f_sum (map Fin xs) = Fin (sum_list xs)"
  by (simp add: f_sum_def foldl_f_add_Fin)

lemma series_mean_fin:
  "s \<noteq> [] \<Longrightarrow> series_mean (fin_series s) = Fin (mean_of (map snd s))"
  by (simp add: series_mean_def values_fin_series dropna_Fin f_sum_Fin mean_of_def Let_def
      del: map_map)

lemma series_std_fin:
  assumes "2 \<le> length s"
  shows "series_std (fin_series s) = Fin (sample_std (map snd s))"
proof -
  let ?xs = "map snd s"
  have n: "real (length s) \<noteq> 0" "\<not> length s < 2" "real (length s) - 1 \<noteq> 0"
    using assms by auto
  have avg: "f_div (f_sum (map Fin ?xs)) (Fin (real (length s))) = Fin (mean_of ?xs)"
    using n by (simp add: f_sum_Fin mean_of_def del: map_map)
  have sq: "map (\<lambda>y. f_mul (f_sub (Fin m) y) (f_sub (Fin m) y)) (map Fin xs)
              = map Fin (map (\<lambda>x. (x - m)\<^sup>2) xs)" for m xs
    by (induction xs) (simp_all add: f_sub_def power2_eq_square algebra_simps)
  have nonneg: "0 \<le> (\<Sum>x\<leftarrow>?xs. (x - mean_of ?xs)\<^sup>2) / (real (length s) - 1)"
    using assms by (intro divide_nonneg_nonneg sum_list_nonneg) auto
  show ?thesis
    using n nonneg
    by (simp add: series_std_def values_fin_series dropna_Fin Let_def avg sq f_sum_Fin
        sample_std_def mean_of_def del: map_map)
qed

text \<open>
  C6 (as amended). The calibrator never fails. For finite series with at least two
  returns and a nonzero mean of the raw volatility it returns
  \<open>raw * (std-dev(returns) / mean(raw))\<close>; when the mean of the raw volatility is zero
  the scale factor is not finite and neither is any entry of the returned series.
\<close>

theorem calibrate_volatility_rescales:
  "(2 \<le> length rs \<and> raw \<noteq> [] \<and> mean_of (map snd raw) \<noteq> 0 \<longrightarrow>
      calibrate_volatility (fin_series rs) (fin_series raw)
        = fin_series (map (\<lambda>(t, v). (t, v * (sample_std (map snd rs) / mean_of (map snd raw)))) raw))
   \<and> (series_mean sigma = Fin 0 \<longrightarrow>
        (\<forall>v \<in> set (values_of (calibrate_volatility returns sigma)). \<not> is_finite v))"
proof (intro conjI impI)
  assume h: "2 \<le> length rs \<and> raw \<noteq> [] \<and> mean_of (map snd raw) \<noteq> 0"
  then show "calibrate_volatility (fin_series rs) (fin_series raw)
        = fin_series (map (\<lambda>(t, v). (t, v * (sample_std (map snd rs) / mean_of (map snd raw)))) raw)"
    by (simp add: calibrate_volatility_def series_std_fin series_mean_fin Let_def)
       (simp add: fin_series_def case_prod_unfold)
next
  assume z: "series_mean sigma = Fin 0"
  have d: "\<not> is_finite (f_div x (Fin 0))" for x
    by (cases x) (simp_all add: is_finite_def inf_of_sign_def)
  have m: "\<not> is_finite (f_mul v y)" if "\<not> is_finite y" for v y
    using that by (cases v; cases y) (simp_all add: is_finite_def inf_of_sign_def)
  show "\<forall>v \<in> set (values_of (calibrate_volatility returns sigma)). \<not> is_finite v"
    using d m by (auto simp add: calibrate_volatility_def values_of_def z Let_def)
qed

theorem calibrate_volatility_rescales_witness:
  "calibrate_volatility (fin_series [(0::nat, 1), (1, 3)]) (fin_series [(0::nat, 2), (1, 4)])
     = fin_series [(0, 2 * (sample_std [1, 3] / 3)), (1, 4 * (sample_std [1, 3] / 3))]
   \<and> \<not> is_finite (snd (hd (calibrate_volatility (fin_series [(0::nat, 1), (1, 3)])
                                 (fin_series [(0::nat, 0)]))))"
proof -
  have a: "mean_of [2, 4] = 3" by (simp add: mean_of_def)
  have b: "series_mean (fin_series [(0::nat, 0)]) = Fin 0"
    by (simp add: series_mean_fin mean_of_def)
  show ?thesis
    using calibrate_volatility_rescales [of "[(0::nat, 1), (1, 3)]" "[(0::nat, 2), (1, 4)]"
        "fin_series [(0::nat, 0)]" "fin_series [(0::nat, 1), (1, 3)]"] a b
    by (simp add: values_of_def calibrate_volatility_def fin_series_def)
qed

text \<open>
  C6 as stated: with a raw volatility of mean zero the calibrator returns a series (of
  NaN here: \<open>0 * inf\<close>), where the claim has it fail.
\<close>

theorem calibrate_zero_mean_returns:
  "calibrate_volatility [(0::nat, Fin 1), (1, Fin 3)] [(0::nat, Fin 0), (1, Fin 0)]
     = [(0, NaN), (1, NaN)]"
  by (simp add: calibrate_volatility_def series_std_def series_mean_def dropna_def f_sum_def
      values_of_def f_sub_def inf_of_sign_def Let_def)


lemma sum_astype_int_card:
  "sum_list (astype_int bs) = int (card {i. i < length bs \<and> bs ! i})"
  by (simp add: sum_astype_int count_list_filter length_filter_conv_card)

text \<open>
  C9. On two series with the same labels the breach detector returns an indicator with
  those labels that is true exactly where the return is below minus the VaR (for finite
  values: \<open>r < - v\<close>), and the rate is the mean of the indicator: the number of breaches
  over the number of timestamps, NaN on the empty domain. On the returns
  \<open>[-0.05, 0.02, -0.01]\<close> against the VaR \<open>[0.03, 0.03, 0.03]\<close> the indicator is
  \<open>[True, False, False]\<close> and the rate is \<open>1/3\<close>.
\<close>

theorem var_breaches_indicator:
  "(index returns = index var \<longrightarrow>
      (\<exists>bs rate. var_breaches returns var = Inr (bs, rate)
         \<and> index bs = index returns
         \<and> (\<forall>i < length returns.
                snd (bs ! i) = f_lt (snd (returns ! i)) (f_neg (snd (var ! i)))
                \<and> (\<forall>r v. snd (returns ! i) = Fin r \<and> snd (var ! i) = Fin v
                       \<longrightarrow> snd (bs ! i) = (r < - v)))
         \<and> rate = (if returns = [] then NaN
                    else Fin (real (card {i. i < length bs \<and> snd (bs ! i)})
                              / real (length returns)))))
   \<and> var_breaches [(0::nat, Fin (- 5 / 100)), (1, Fin (2 / 100)), (2, Fin (- 1 / 100))]
                    [(0, Fin (3 / 100)), (1, Fin (3 / 100)), (2, Fin (3 / 100))]
       = Inr ([(0, True), (1, False), (2, False)], Fin (1 / 3))"
proof (intro conjI impI)
  assume same: "index returns = index var"
  define bs where "bs = map (\<lambda>((t, r), (u, v)). (t, f_lt r (f_neg v))) (zip returns var)"
  have len: "length var = length returns"
    using same [symmetric] by (simp add: index_def) (metis length_map)
  then have lbs: "length bs = length returns"
    by (simp add: bs_def)
  have nth: "bs ! i = (fst (returns ! i), f_lt (snd (returns ! i)) (f_neg (snd (var ! i))))"
    if "i < length returns" for i
    using that len by (simp add: bs_def case_prod_unfold)
  have idx: "index bs = index returns"
    using lbs by (auto simp add: index_def nth intro: nth_equalityI)
  have vals: "{i. i < length (values_of bs) \<and> values_of bs ! i}
                = {i. i < length bs \<and> snd (bs ! i)}"
    by (auto simp add: values_of_def)
  have rate: "bool_mean bs = (if returns = [] then NaN
                else Fin (real (card {i. i < length bs \<and> snd (bs ! i)}) / real (length returns)))"
    using lbs by (auto simp add: bool_mean_def sum_astype_int_card vals)
  have res: "var_breaches returns var = Inr (bs, bool_mean bs)"
    using same by (simp add: var_breaches_def bs_def Let_def)
  show "\<exists>bs rate. var_breaches returns var = Inr (bs, rate)
         \<and> index bs = index returns
         \<and> (\<forall>i < length returns.
                snd (bs ! i) = f_lt (snd (returns ! i)) (f_neg (snd (var ! i)))
                \<and> (\<forall>r v. snd (returns ! i) = Fin r \<and> snd (var ! i) = Fin v
                       \<longrightarrow> snd (bs ! i) = (r < - v)))
         \<and> rate = (if returns = [] then NaN
                    else Fin (real (card {i. i < length bs \<and> snd (bs ! i)})
                              / real (length returns)))"
    using res idx rate by (auto simp add: nth)
next
  show "var_breaches [(0::nat, Fin (- 5 / 100)), (1, Fin (2 / 100)), (2, Fin (- 1 / 100))]
                    [(0, Fin (3 / 100)), (1, Fin (3 / 100)), (2, Fin (3 / 100))]
       = Inr ([(0, True), (1, False), (2, False)], Fin (1 / 3))"
    by (simp add: var_breaches_def index_def bool_mean_def values_of_def astype_int_def Let_def)
qed

theorem var_breaches_indicator_witness:
  "\<exists>bs rate. var_breaches [(0::nat, Fin (- 2)), (1, Fin 0)] [(0, Fin 1), (1, Fin 1)] = Inr (bs, rate)
      \<and> snd (bs ! 0) \<and> \<not> snd (bs ! 1)"
proof -
  let ?r = "[(0::nat, Fin (- 2)), (1, Fin 0)]" and ?v = "[(0::nat, Fin 1), (1, Fin 1)]"
  have "index ?r = index ?v" by (simp add: index_def)
  with var_breaches_indicator [of ?r ?v]
  obtain bs rate where r: "var_breaches ?r ?v = Inr (bs, rate)"
    and e: "\<forall>i < length ?r. snd (bs ! i) = f_lt (snd (?r ! i)) (f_neg (snd (?v ! i)))
                \<and> (\<forall>r v. snd (?r ! i) = Fin r \<and> snd (?v ! i) = Fin v
                       \<longrightarrow> snd (bs ! i) = (r < - v))"
    by blast
  from e [rule_format, of 0] e [rule_format, of 1] r show ?thesis by simp
qed


lemma loc_range_empty:
  assumes "\<forall>t \<in> set (index s). \<not> (lo \<le> t \<and> t \<le> hi)"
  shows "loc_range s lo hi = []"
proof (cases "dropWhile (\<lambda>(t, v). t < lo) s")
  case Nil
  show ?thesis unfolding loc_range_def Nil by simp
next
  case (Cons x xs)
  then have "\<not> (\<lambda>(t, v). t < lo) x"
    using hd_dropWhile [of "\<lambda>(t, v). t < lo" s] by simp
  moreover have "x \<in> set s"
    using Cons set_dropWhileD [of x "\<lambda>(t, v). t < lo" s] by simp
  ultimately have "\<not> fst x \<le> hi"
    using assms by (auto simp add: index_def case_prod_unfold)
  then show ?thesis
    unfolding loc_range_def Cons by (simp add: case_prod_unfold)
qed

text \<open>
  C7 (as amended). For a return series on an increasing index and a window that holds
  none of its timestamps, the stress analyzer does not fail: it returns the record with
  day count 0, NaN worst day, NaN average daily loss and cumulative loss 0 (the sum of no
  observations).
\<close>

theorem stress_empty_window:
  assumes "sorted (index returns)"
    and "\<forall>t \<in> set (index returns). \<not> (lo \<le> t \<and> t \<le> hi)"
  shows "stress_test_period returns lo hi =
           \<lparr>start = lo, stop = hi, days = 0, worst_day = NaN,
            cumulative_loss = Fin 0, avg_daily_loss = NaN\<rparr>"
  using loc_range_empty [OF assms(2)]
  by (simp add: stress_test_period_def series_min_def series_sum_def series_mean_def
      dropna_def f_sum_def values_of_def)

theorem stress_empty_window_witness:
  "stress_test_period [(3::nat, Fin (- 1 / 100)), (4, Fin (2 / 100))] 10 20 =
     \<lparr>start = 10, stop = 20, days = 0, worst_day = NaN,
      cumulative_loss = Fin 0, avg_daily_loss = NaN\<rparr>"
  using stress_empty_window [of "[(3::nat, Fin (- 1 / 100)), (4, Fin (2 / 100))]" 10 20]
  by (simp add: index_def)

text \<open>
  C7 as stated: on a window without observations the cumulative loss is 0, not NaN.
\<close>

theorem stress_empty_cumulative_loss:
  "days (stress_test_period [(1::nat, Fin (- 1 / 100))] 5 9) = 0
   \<and> cumulative_loss (stress_test_period [(1::nat, Fin (- 1 / 100))] 5 9) = Fin 0"
  by (simp add: stress_test_period_def loc_range_def series_sum_def dropna_def f_sum_def
      values_of_def)

lemma scale_series_nth:
  "i < length s \<Longrightarrow> scale_series k s ! i = (fst (s ! i), f_mul k (snd (s ! i)))"
  by (simp add: scale_series_def case_prod_unfold)

text \<open>
  With \<open>0 < nu < 1\<close> the factor \<open>(nu + z^2) / (nu - 1)\<close> is negative: whatever finite
  quantile and positive density scipy returns, every CVaR entry over a positive
  volatility is a negative number.
\<close>

lemma student_t_cvar_negative:
  assumes nu: "0 < nu" "nu < 1" and alpha: "alpha < 1"
    and z: "t_ppf stats alpha nu = Fin z"
    and d: "t_pdf stats (Fin z) nu = Fin d" "0 < d"
    and res: "parametric_var_cvar stats returns sigma alpha ''t'' (Some nu) = Inr (aligned, var, cvar)"
    and i: "i < length sigma" "snd (sigma ! i) = Fin s" "0 < s"
  shows "\<exists>c. snd (cvar ! i) = Fin c \<and> c < 0"
proof -
  define k where "k = d / (1 - alpha) * ((nu + z * z) / (nu - 1))"
  have "cvar = scale_series (Fin k) sigma"
    using res nu alpha by (simp add: parametric_var_cvar_def Let_def z d k_def split: sum.splits)
  then have c: "snd (cvar ! i) = Fin (k * s)"
    using i by (simp add: scale_series_nth)
  have "0 < d / (1 - alpha)"
    using d alpha by simp
  moreover have "(nu + z * z) / (nu - 1) < 0"
    using nu by (intro divide_pos_neg add_pos_nonneg) simp_all
  ultimately have "k < 0"
    unfolding k_def by (rule mult_pos_neg)
  then have "k * s < 0"
    using i by (simp add: mult_neg_pos)
  with c show ?thesis by blast
qed

text \<open>
  C5. With the Student-t family and \<open>nu = 1/2\<close> the calculation does not fail: no check on
  \<open>nu\<close> exists, and it returns the aligned returns, the VaR and a negative CVaR, where
  the docstring of the function promises a positive CVaR loss magnitude. The scipy
  functions are replaced by constants here; no branch depends on their values.
\<close>

theorem student_t_half_nu_returns:
  "parametric_var_cvar
       \<lparr>norm_ppf = (\<lambda>a. Fin 2), norm_pdf = (\<lambda>z. Fin (1 / 40)),
        t_ppf = (\<lambda>a n. Fin 32), t_pdf = (\<lambda>z n. Fin (3 / 10000))\<rparr>
       [(0::nat, Fin 0)] [(0, Fin (1 / 100))] (99 / 100) ''t'' (Some (1 / 2))
     = Inr ([(0, Fin 0)], [(0, Fin (32 / 100))], [(0, Fin (- 6147 / 10000))])"
  by (simp add: parametric_var_cvar_def scale_series_def index_def Let_def)

end
